theory Spec2Isabelle
  imports Complex_Main "HOL-Library.Word"
begin

unbundle bit_operations_syntax

section \<open>Python exceptions\<close>

text \<open>
  A call that can raise returns a sum: \<open>Inl e\<close> when the exception \<open>e\<close> leaves the
  call, \<open>Inr v\<close> when it returns \<open>v\<close>. The type \<open>exn\<close> holds instances of Python's
  class \<open>Exception\<close>: these are what the libraries used here raise, and what a handler
  \<open>except Exception\<close> catches.
\<close>

datatype exn =
    TypeError
  | ValueError
  | IndexError
  | RuntimeError
  | ZeroDivisionError
  | UnidentifiedImageError
  | ClientError
  | OtherException string

type_synonym bytes = "8 word list"

section \<open>Floating-point values\<close>

text \<open>
  A floating-point value is the rational it stands for, an infinity or a NaN; the two
  zeros are one value.
\<close>

datatype fp = Finite rat | PosInf | NegInf | NaN


section \<open>kfastml/utils/api.py\<close>

subsection \<open>gen\_request\_id\<close>

text \<open>
  \<open>uuid.uuid4()\<close> reads 16 bytes from the operating system's random source, takes them
  as a 128-bit integer and overwrites six bits: the variant (bits 62 and 63 become
  \<open>10\<close>) and the version (bits 76 to 79 become 4). The random integer is the argument
  \<open>rnd\<close> of the model. \<open>.hex\<close> is \<open>'%032x' % int\<close>: 32 lower-case hexadecimal digits.
\<close>

definition uuid4 :: "128 word \<Rightarrow> 128 word" where
  "uuid4 rnd =
     (let i1 = rnd AND NOT (push_bit 48 0xc000);
          i2 = i1 OR push_bit 48 0x8000;
          i3 = i2 AND NOT (push_bit 64 0xf000)
      in i3 OR push_bit 76 4)"

definition hex_digit :: "int \<Rightarrow> char" where
  "hex_digit d = ''0123456789abcdef'' ! nat d"

fun hex_pad :: "nat \<Rightarrow> int \<Rightarrow> string" where
  "hex_pad 0 n = []"
| "hex_pad (Suc k) n = hex_pad k (n div 16) @ [hex_digit (n mod 16)]"

definition uuid_hex :: "128 word \<Rightarrow> string" where
  "uuid_hex u = hex_pad 32 (uint u)"

definition gen_request_id :: "string \<Rightarrow> 128 word \<Rightarrow> string" where
  "gen_request_id api_name rnd = api_name @ ''_'' @ uuid_hex (uuid4 rnd)"

subsection \<open>build\_json\_response\<close>



















section \<open>prebuilt\_apps/watermark\_removal/model\_server.py\<close>

subsection \<open>The storage client\<close>

text \<open>
  \<open>s3 = boto3.client("s3")\<close> is a module-level object. The model keeps what the
  functions below can observe of it: the requests \<open>put_object\<close> has received so far, in
  order, and the answers of the service, which are inputs (\<open>download_outcome\<close> for
  \<open>download_fileobj\<close>; \<open>put_outcome\<close> for \<open>put_object\<close>, which may depend on the
  requests seen before). A call with an effect returns its result paired with the client
  afterwards, also when it raises.
\<close>

record 'd s3_client =
  download_outcome :: "string \<Rightarrow> string \<Rightarrow> exn + bytes"
  put_outcome :: "('d \<times> string \<times> string) list \<Rightarrow> 'd \<times> string \<times> string \<Rightarrow> exn option"
  put_requests :: "('d \<times> string \<times> string) list"

definition download_fileobj :: "'d s3_client \<Rightarrow> string \<Rightarrow> string \<Rightarrow> exn + bytes" where
  "download_fileobj s3 bucket key = download_outcome s3 bucket key"

definition put_object ::
  "'d s3_client \<Rightarrow> 'd \<Rightarrow> string \<Rightarrow> string \<Rightarrow> (exn + unit) \<times> 'd s3_client" where
  "put_object s3 body bucket key =
     (let s3' = s3\<lparr>put_requests := put_requests s3 @ [(body, bucket, key)]\<rparr>
      in case put_outcome s3 (put_requests s3) (body, bucket, key) of
           Some e \<Rightarrow> (Inl e, s3')
         | None \<Rightarrow> (Inr (), s3'))"

text \<open>
  \<open>download_from_s3\<close>: the whole body is inside \<open>try\<close>; the handler prints the exception
  and returns \<open>None\<close>. \<open>upload_to_s3\<close>: the call of \<open>put_object\<close> is inside \<open>try\<close>, the
  handler prints and returns \<open>None\<close>; the f-string is built after it.
\<close>

definition download_from_s3 :: "'d s3_client \<Rightarrow> string \<Rightarrow> string \<Rightarrow> exn + bytes option" where
  "download_from_s3 s3 bucket object_path =
     (case download_fileobj s3 bucket object_path of
        Inr file_data \<Rightarrow> Inr (Some file_data)
      | Inl e \<Rightarrow> Inr None)"

definition upload_to_s3 ::
  "'d s3_client \<Rightarrow> 'd \<Rightarrow> string \<Rightarrow> string \<Rightarrow> (exn + string option) \<times> 'd s3_client" where
  "upload_to_s3 s3 data_bytes bucket object_path =
     (case put_object s3 data_bytes bucket object_path of
        (Inl e, s3') \<Rightarrow> (Inr None, s3')
      | (Inr u, s3') \<Rightarrow> (Inr (Some (''s3://'' @ bucket @ ''/'' @ object_path)), s3'))"

definition BUCKET_NAME :: string where
  "BUCKET_NAME = ''''"

subsection \<open>Tensors\<close>

text \<open>
  A tensor is its shape and its elements in row-major order. The operations of torch
  that the source calls follow torch's signatures: each returns a new tensor and leaves
  its argument as it was; \<open>view\<close> needs the same number of elements, \<open>permute\<close> needs
  each dimension named once, and \<open>unsqueeze\<close> has one required argument \<open>dim\<close> (here
  \<open>None\<close> stands for a call that passes none, which Python refuses with a TypeError).
\<close>

record 'a tensor =
  shape :: "nat list"
  elems :: "'a list"

fun strides :: "nat list \<Rightarrow> nat list" where
  "strides [] = []"
| "strides (n # ns) = prod_list ns # strides ns"

fun offsets :: "nat list \<Rightarrow> nat list \<Rightarrow> nat \<Rightarrow> nat list" where
  "offsets (n # ns) (s # ss) off = concat (map (\<lambda>i. offsets ns ss (off + i * s)) [0..<n])"
| "offsets ns ss off = [off]"

definition torch_view :: "'a tensor \<Rightarrow> nat list \<Rightarrow> exn + 'a tensor" where
  "torch_view t new_shape =
     (if prod_list new_shape = length (elems t) then Inr (t\<lparr>shape := new_shape\<rparr>)
      else Inl RuntimeError)"

definition torch_permute :: "'a tensor \<Rightarrow> nat list \<Rightarrow> exn + 'a tensor" where
  "torch_permute t dims =
     (if length dims \<noteq> length (shape t) then Inl RuntimeError
      else if \<exists>d \<in> set dims. length (shape t) \<le> d then Inl IndexError
      else if \<not> distinct dims then Inl RuntimeError
      else Inr \<lparr>shape = map (\<lambda>d. shape t ! d) dims,
                elems = map (\<lambda>i. elems t ! i)
                  (offsets (map (\<lambda>d. shape t ! d) dims) (map (\<lambda>d. strides (shape t) ! d) dims) 0)\<rparr>)"

definition torch_unsqueeze :: "'a tensor \<Rightarrow> nat option \<Rightarrow> exn + 'a tensor" where
  "torch_unsqueeze t dim_arg =
     (case dim_arg of
        None \<Rightarrow> Inl TypeError
      | Some d \<Rightarrow>
          if d \<le> length (shape t) then Inr (t\<lparr>shape := take d (shape t) @ [1] @ drop d (shape t)\<rparr>)
          else Inl IndexError)"

subsection \<open>image\_to\_tensor\<close>

text \<open>
  A decoded PIL image: its mode, its size (the attributes \<open>mode\<close>, \<open>height\<close> and
  \<open>width\<close>), and \<open>pixels\<close>, the bytes that
  \<open>np.array(image, np.uint8)\<close> holds, row by row and band by band within a pixel. numpy
  gives the array the shape (height, width) for a one-band mode and
  (height, width, bands) otherwise.
\<close>

datatype image_mode = Mode_1 | Mode_L | Mode_P | Mode_LA | Mode_RGB | Mode_RGBA | Mode_CMYK

record image =
  im_mode :: image_mode
  im_height :: nat
  im_width :: nat
  pixels :: "8 word list"

fun getbands :: "image_mode \<Rightarrow> string list" where
  "getbands Mode_1 = [''1'']"
| "getbands Mode_L = [''L'']"
| "getbands Mode_P = [''P'']"
| "getbands Mode_LA = [''L'', ''A'']"
| "getbands Mode_RGB = [''R'', ''G'', ''B'']"
| "getbands Mode_RGBA = [''R'', ''G'', ''B'', ''A'']"
| "getbands Mode_CMYK = [''C'', ''M'', ''Y'', ''K'']"

definition wf_image :: "image \<Rightarrow> bool" where
  "wf_image im \<longleftrightarrow>
     length (pixels im) = im_height im * im_width im * length (getbands (im_mode im))"

definition np_array :: "image \<Rightarrow> 8 word tensor" where
  "np_array im =
     \<lparr>shape = (if length (getbands (im_mode im)) = 1 then [im_height im, im_width im]
               else [im_height im, im_width im, length (getbands (im_mode im))]),
      elems = pixels im\<rparr>"

text \<open>
  The source calls \<open>view\<close> and \<open>permute(...).contiguous()\<close> as statements and drops
  what they return, so \<open>image_tensor\<close> is still numpy's array when it is converted; the
  two calls can only raise. \<open>*= 255\<close> is in place on unsigned bytes and wraps.
  \<open>.float().div(255.0)\<close> is written with exact rationals.
\<close>

definition image_to_tensor :: "image \<Rightarrow> exn + rat tensor" where
  "image_to_tensor im =
     (let image_tensor0 = np_array im;
          image_tensor =
            (if im_mode im = Mode_1
             then image_tensor0\<lparr>elems := map (\<lambda>v. v * 255) (elems image_tensor0)\<rparr>
             else image_tensor0);
          image_channels = length (getbands (im_mode im))
      in case torch_view image_tensor [im_height im, im_width im, image_channels] of
           Inl e \<Rightarrow> Inl e
         | Inr viewed \<Rightarrow>
             (case torch_permute image_tensor [2, 0, 1] of
                Inl e \<Rightarrow> Inl e
              | Inr permuted \<Rightarrow>
                  torch_unsqueeze
                    \<lparr>shape = shape image_tensor,
                     elems = map (\<lambda>v. of_nat (unat v) / 255) (elems image_tensor)\<rparr>
                    None))"

subsection \<open>The per-job loop\<close>

text \<open>
  What the loop calls outside this file: \<open>Image.open\<close> (with the decoding that
  \<open>np.array\<close> triggers) and the loaded model, called with the job's keyword arguments.
  Neither call is inside a \<open>try\<close>.
\<close>

record 'k collaborators =
  image_open :: "bytes \<Rightarrow> exn + image"
  run_model :: "rat tensor \<Rightarrow> 'k \<Rightarrow> exn + rat tensor"

record job_state =
  s3 :: "rat tensor s3_client"
  src_images_uri :: "string option list"
  result_images_uri :: "string option list"

text \<open>Lines 99 and 100: the two uploads of one iteration and the two appends.\<close>

definition store_results ::
  "string \<Rightarrow> rat tensor \<Rightarrow> rat tensor \<Rightarrow> job_state \<Rightarrow> (exn + unit) \<times> job_state" where
  "store_results image_uri image_tensor predicted st =
     (case upload_to_s3 (s3 st) image_tensor BUCKET_NAME (image_uri @ ''_original.png'') of
        (Inl e, c1) \<Rightarrow> (Inl e, st\<lparr>s3 := c1\<rparr>)
      | (Inr r1, c1) \<Rightarrow>
          (let st1 = st\<lparr>s3 := c1, src_images_uri := src_images_uri st @ [r1]\<rparr>
           in case upload_to_s3 c1 predicted BUCKET_NAME (image_uri @ ''_predicted.png'') of
                (Inl e, c2) \<Rightarrow> (Inl e, st1\<lparr>s3 := c2\<rparr>)
              | (Inr r2, c2) \<Rightarrow>
                  (Inr (), st1\<lparr>s3 := c2, result_images_uri := result_images_uri st1 @ [r2]\<rparr>)))"

text \<open>
  Lines 87 to 95 for one fetched payload: open and decode the image, convert it, run
  the model. An exception of any of the three leaves the loop.
\<close>

definition infer_item ::
  "'k collaborators \<Rightarrow> 'k \<Rightarrow> bytes \<Rightarrow> exn + rat tensor \<times> rat tensor" where
  "infer_item env kwargs payload =
     (case image_open env payload of
        Inl e \<Rightarrow> Inl e
      | Inr im \<Rightarrow>
          (case image_to_tensor im of
             Inl e \<Rightarrow> Inl e
           | Inr image_tensor \<Rightarrow>
               (case run_model env image_tensor kwargs of
                  Inl e \<Rightarrow> Inl e
                | Inr predicted \<Rightarrow> Inr (image_tensor, predicted))))"

text \<open>
  \<open>download_uris_async\<close> (\<open>kfastml.utils.network\<close>) is not among the sources, so
  what it delivers is an argument of the loop: the list \<open>fetched\<close> holds, for each
  reference of the job, the pair of the reference and its payload, or \<open>None\<close> for a
  payload that could not be fetched, in the order \<open>asyncio.as_completed\<close> hands the
  pairs over, which is any order. As the spec has it, awaiting a fetch does not raise.
\<close>

fun process_fetched ::
  "'k collaborators \<Rightarrow> 'k \<Rightarrow> (string \<times> bytes option) list \<Rightarrow> job_state
     \<Rightarrow> (exn + unit) \<times> job_state" where
  "process_fetched env kwargs [] st = (Inr (), st)"
| "process_fetched env kwargs ((image_uri, image_data) # rest) st =
     (case image_data of
        None \<Rightarrow> process_fetched env kwargs rest st
      | Some payload \<Rightarrow>
          (case infer_item env kwargs payload of
             Inl e \<Rightarrow> (Inl e, st)
           | Inr (image_tensor, predicted) \<Rightarrow>
               (case store_results image_uri image_tensor predicted st of
                  (Inl e, st') \<Rightarrow> (Inl e, st')
                | (Inr u, st') \<Rightarrow> process_fetched env kwargs rest st')))"

definition image_to_image ::
  "'k collaborators \<Rightarrow> rat tensor s3_client \<Rightarrow> string \<Rightarrow> (string \<times> bytes option) list \<Rightarrow> 'k
     \<Rightarrow> (exn + (string \<times> string option list) list) \<times> rat tensor s3_client" where
  "image_to_image env client request_id fetched kwargs =
     (case process_fetched env kwargs fetched
             \<lparr>s3 = client, src_images_uri = [], result_images_uri = []\<rparr> of
        (Inl e, st) \<Rightarrow> (Inl e, s3 st)
      | (Inr u, st) \<Rightarrow>
          (Inr [(''images_uri'', src_images_uri st),
                (''cleaned_images_uri'', result_images_uri st)], s3 st))"

subsection \<open>resize\_image\<close>

text \<open>
  \<open>torch.where\<close> takes a tensor as its condition. The source passes the Python bool
  \<open>height > width\<close> and two Python floats, a call torch refuses with a TypeError whatever
  their values are; \<open>torch_where_scalar\<close> is that call. Python's \<open>/\<close> raises on a zero
  divisor, and both quotients are computed before \<open>torch.where\<close> is called. The lines
  after it are written as they stand: the quotients and products with exact rationals,
  \<open>torch.round\<close> rounding a half to the even neighbour, \<open>.to(torch.int32)\<close> giving the
  least 32-bit value outside the 32-bit range. The values \<open>F.interpolate\<close> computes are
  the parameter \<open>resample\<close>.
\<close>

definition torch_where_scalar :: "bool \<Rightarrow> rat \<Rightarrow> rat \<Rightarrow> exn + rat" where
  "torch_where_scalar condition x y = Inl TypeError"

definition torch_round :: "rat \<Rightarrow> int" where
  "torch_round x =
     (let f = \<lfloor>x\<rfloor>; r = x - of_int f
      in if r < 1 / 2 then f else if 1 / 2 < r then f + 1 else if even f then f else f + 1)"

definition to_int32 :: "int \<Rightarrow> int" where
  "to_int32 x = (if - (2 ^ 31) \<le> x \<and> x < 2 ^ 31 then x else - (2 ^ 31))"

definition new_size :: "nat \<Rightarrow> nat \<Rightarrow> nat \<Rightarrow> nat \<Rightarrow> exn + int \<times> int" where
  "new_size height width min_dimension max_dimension =
     (if height = 0 \<or> width = 0 then Inl ZeroDivisionError
      else case torch_where_scalar (height > width)
                  (of_nat min_dimension / of_nat height) (of_nat max_dimension / of_nat width) of
             Inl e \<Rightarrow> Inl e
           | Inr scale_factor \<Rightarrow>
               Inr (to_int32 (torch_round (of_nat height * scale_factor)),
                    to_int32 (torch_round (of_nat width * scale_factor))))"

definition F_interpolate ::
  "('a tensor \<Rightarrow> nat \<Rightarrow> nat \<Rightarrow> 'a list) \<Rightarrow> 'a tensor \<Rightarrow> int \<times> int \<Rightarrow> exn + 'a tensor" where
  "F_interpolate resample t size_arg =
     (case shape t of
        [n, c, h, w] \<Rightarrow>
          if n = 0 \<or> c = 0 \<or> h = 0 \<or> w = 0 \<or> fst size_arg \<le> 0 \<or> snd size_arg \<le> 0
          then Inl RuntimeError
          else Inr \<lparr>shape = [n, c, nat (fst size_arg), nat (snd size_arg)],
                    elems = resample t (nat (fst size_arg)) (nat (snd size_arg))\<rparr>
      | _ \<Rightarrow> Inl ValueError)"

definition resize_image ::
  "('a tensor \<Rightarrow> nat \<Rightarrow> nat \<Rightarrow> 'a list) \<Rightarrow> 'a tensor \<Rightarrow> nat \<Rightarrow> nat \<Rightarrow> exn + 'a tensor" where
  "resize_image resample image_tensor min_dimension max_dimension =
     (case shape image_tensor of
        [c, height, width] \<Rightarrow>
          (case new_size height width min_dimension max_dimension of
             Inl e \<Rightarrow> Inl e
           | Inr (new_height, new_width) \<Rightarrow>
               if new_width = int width \<and> new_height = int height then Inr image_tensor
               else (case torch_unsqueeze image_tensor (Some 0) of
                       Inl e \<Rightarrow> Inl e
                     | Inr batched \<Rightarrow> F_interpolate resample batched (new_height, new_width)))
      | _ \<Rightarrow> Inl ValueError)"

subsection \<open>\_load\_model\<close>

text \<open>
  A loaded module is its parameter tensors (the values of each, flattened), their
  element type, the device and the training flag.
\<close>

datatype dtype = Float64 | Float32 | Float16

record module =
  parameters :: "fp list list"
  param_dtype :: dtype
  device :: string
  training :: bool

text \<open>
  \<open>eps = 1e-5\<close> is a Python float. In \<open>torch.abs(param) < eps\<close> torch converts it to
  the element type of \<open>param\<close> and compares there, so the threshold is the value of that
  type nearest to \<open>1e-5\<close>. A NaN or an infinity is not below it.
\<close>

definition eps_as :: "dtype \<Rightarrow> rat" where
  "eps_as dt =
     (case dt of
        Float64 \<Rightarrow> 5902958103587057 / 2 ^ 69
      | Float32 \<Rightarrow> 10995116 / 2 ^ 40
      | Float16 \<Rightarrow> 168 / 2 ^ 24)"

definition abs_lt_eps :: "dtype \<Rightarrow> fp \<Rightarrow> bool" where
  "abs_lt_eps dt v = (case v of Finite x \<Rightarrow> \<bar>x\<bar> < eps_as dt | _ \<Rightarrow> False)"

text \<open>
  \<open>.half()\<close> rounds each value to the nearest value of IEEE half precision, a tie going
  to the even neighbour. Below \<open>2 ^ 16\<close> these are the multiples of a step that doubles
  from one binade to the next: \<open>2 ^ - 24\<close> below \<open>2 ^ - 13\<close>, and \<open>2 ^ (k - 24)\<close> from
  \<open>2 ^ (k - 14)\<close> to \<open>2 ^ (k - 13)\<close> for \<open>k\<close> from 1 to 29. What rounds to \<open>2 ^ 16\<close> or
  more becomes an infinity.
\<close>

definition half_binade :: "rat \<Rightarrow> nat" where
  "half_binade a = length (filter (\<lambda>j. 2 ^ j \<le> a * 2 ^ 14) [1..<30])"

definition to_half :: "fp \<Rightarrow> fp" where
  "to_half v =
     (case v of
        Finite x \<Rightarrow>
          (let step = 2 ^ half_binade \<bar>x\<bar> / 2 ^ 24;
               r = of_int (torch_round (x / step)) * step
           in if 2 ^ 16 \<le> \<bar>r\<bar> then (if 0 < x then PosInf else NegInf) else Finite r)
      | _ \<Rightarrow> v)"

text \<open>
  \<open>joblib.load\<close> and \<open>print_model_parameters\<close> (\<open>kfastml.utils\<close>) are outside this
  file; either may raise. \<open>.to('cuda:0')\<close> raises when there is no such device.
\<close>

datatype load_source = FileObj "bytes option" | Path string

record loader =
  joblib_load :: "load_source \<Rightarrow> exn + module"
  print_model_parameters :: "module \<Rightarrow> exn option"
  cuda_available :: bool

record server =
  model_uri :: string
  model :: "module option"

text \<open>\<open>s.split('//')\<close> and \<open>s.split('/', 1)\<close>.\<close>

fun split_double_slash :: "string \<Rightarrow> string list" where
  "split_double_slash (a # b # cs) =
     (if a = CHR ''/'' \<and> b = CHR ''/'' then [] # split_double_slash cs
      else (case split_double_slash (b # cs) of
              w # ws \<Rightarrow> (a # w) # ws
            | [] \<Rightarrow> [[a]]))"
| "split_double_slash cs = [cs]"

definition split_slash_once :: "string \<Rightarrow> string list" where
  "split_slash_once s =
     (if CHR ''/'' \<in> set s
      then [takeWhile (\<lambda>c. c \<noteq> CHR ''/'') s, tl (dropWhile (\<lambda>c. c \<noteq> CHR ''/'') s)]
      else [s])"

definition parse_s3_uri :: "string \<Rightarrow> exn + string \<times> string" where
  "parse_s3_uri uri =
     (case split_double_slash uri of
        first # second # others \<Rightarrow>
          (case split_slash_once second of
             [bucket, file_path] \<Rightarrow> Inr (bucket, file_path)
           | _ \<Rightarrow> Inl ValueError)
      | _ \<Rightarrow> Inl IndexError)"

definition deserialize :: "loader \<Rightarrow> 'd s3_client \<Rightarrow> string \<Rightarrow> exn + module" where
  "deserialize env client uri =
     (if take 5 uri = ''s3://''
      then (case parse_s3_uri uri of
              Inl e \<Rightarrow> Inl e
            | Inr (bucket, file_path) \<Rightarrow>
                (case download_from_s3 client bucket file_path of
                   Inl e \<Rightarrow> Inl e
                 | Inr file_data \<Rightarrow> joblib_load env (FileObj file_data)))
      else joblib_load env (Path uri))"

text \<open>
  The loop over \<open>self.model.parameters()\<close>: each tensor is replaced elementwise by
  \<open>torch.where(torch.abs(param) < eps, torch.zeros_like(param), param)\<close>.
\<close>

definition denormal_cleanup :: "module \<Rightarrow> module" where
  "denormal_cleanup m =
     m\<lparr>parameters :=
         map (\<lambda>param. map (\<lambda>x. if abs_lt_eps (param_dtype m) x then Finite 0 else x) param)
           (parameters m)\<rparr>"

definition module_half :: "module \<Rightarrow> module" where
  "module_half m = m\<lparr>parameters := map (map to_half) (parameters m), param_dtype := Float16\<rparr>"

definition module_to_cuda :: "loader \<Rightarrow> module \<Rightarrow> exn + module" where
  "module_to_cuda env m =
     (if cuda_available env then Inr (m\<lparr>device := ''cuda:0''\<rparr>) else Inl RuntimeError)"

definition module_eval :: "module \<Rightarrow> module" where
  "module_eval m = m\<lparr>training := False\<rparr>"

text \<open>
  The assignments to \<open>self.model\<close> and the in-place changes of the module stay when a
  later step raises, so the server after the call is returned in both cases.
\<close>

definition load_model ::
  "loader \<Rightarrow> 'd s3_client \<Rightarrow> server \<Rightarrow> (exn + unit) \<times> server" where
  "load_model env client self =
     (case deserialize env client (model_uri self) of
        Inl e \<Rightarrow> (Inl e, self)
      | Inr loaded \<Rightarrow>
          (case print_model_parameters env loaded of
             Some e \<Rightarrow> (Inl e, self\<lparr>model := Some loaded\<rparr>)
           | None \<Rightarrow>
               (let cleaned = denormal_cleanup loaded;
                    halved = module_half cleaned
                in case module_to_cuda env halved of
                     Inl e \<Rightarrow> (Inl e, self\<lparr>model := Some halved\<rparr>)
                   | Inr on_device \<Rightarrow> (Inr (), self\<lparr>model := Some (module_eval on_device)\<rparr>))))"

section \<open>Concrete inputs\<close>

text \<open>
  Small inputs at which the theorems below are evaluated. \<open>red_pixel_png\<close> is the PNG
  file of one red pixel (8-bit RGB, 69 bytes), and \<open>red_pixel\<close> is what PIL decodes it
  to. \<open>demo_collaborators\<close> answers for this payload, with a model that returns its
  input.
\<close>

definition red_pixel :: image where
  "red_pixel = \<lparr>im_mode = Mode_RGB, im_height = 1, im_width = 1, pixels = [255, 0, 0]\<rparr>"

definition grey_pixel :: image where
  "grey_pixel = \<lparr>im_mode = Mode_L, im_height = 1, im_width = 1, pixels = [128]\<rparr>"

definition red_pixel_png :: bytes where
  "red_pixel_png =
     [0x89, 0x50, 0x4e, 0x47, 0x0d, 0x0a, 0x1a, 0x0a,
      0x00, 0x00, 0x00, 0x0d, 0x49, 0x48, 0x44, 0x52,
      0x00, 0x00, 0x00, 0x01, 0x00, 0x00, 0x00, 0x01, 0x08, 0x02, 0x00, 0x00, 0x00,
      0x90, 0x77, 0x53, 0xde,
      0x00, 0x00, 0x00, 0x0c, 0x49, 0x44, 0x41, 0x54,
      0x78, 0xda, 0x63, 0xf8, 0xcf, 0xc0, 0x00, 0x00, 0x03, 0x01, 0x01, 0x00,
      0xf7, 0x03, 0x41, 0x43,
      0x00, 0x00, 0x00, 0x00, 0x49, 0x45, 0x4e, 0x44, 0xae, 0x42, 0x60, 0x82]"

definition demo_collaborators :: "unit collaborators" where
  "demo_collaborators =
     \<lparr>image_open = (\<lambda>b. if b = red_pixel_png then Inr red_pixel else Inl UnidentifiedImageError),
      run_model = (\<lambda>t k. Inr t)\<rparr>"

definition accepting_client :: "rat tensor s3_client" where
  "accepting_client =
     \<lparr>download_outcome = (\<lambda>b k. Inl ClientError),
      put_outcome = (\<lambda>h r. None),
      put_requests = []\<rparr>"

definition refusing_client :: "rat tensor s3_client" where
  "refusing_client =
     \<lparr>download_outcome = (\<lambda>b k. Inl ClientError),
      put_outcome = (\<lambda>h r. Some ClientError),
      put_requests = []\<rparr>"

definition image_800_900 :: "nat tensor" where
  "image_800_900 = \<lparr>shape = [3, 800, 900], elems = replicate (3 * 800 * 900) 0\<rparr>"

text \<open>
  Two float32 modules. The second has one parameter, the float32 value nearest to
  \<open>1e-5\<close>, which is \<open>10995116 / 2 ^ 40\<close> and lies below \<open>1e-5\<close>.
\<close>

definition demo_module :: module where
  "demo_module =
     \<lparr>parameters = [[Finite (1 / 2), Finite (1 / 2 ^ 19), Finite (- 1 / 2 ^ 18)],
                     [Finite 0, Finite (1 / 2 ^ 16)]],
      param_dtype = Float32, device = ''cpu'', training = True\<rparr>"

definition edge_module :: module where
  "edge_module =
     \<lparr>parameters = [[Finite (10995116 / 2 ^ 40)]],
      param_dtype = Float32, device = ''cpu'', training = True\<rparr>"

definition demo_loader :: loader where
  "demo_loader =
     \<lparr>joblib_load =
        (\<lambda>src. case src of
                  Path p \<Rightarrow> if p = ''edge_v0.1'' then Inr edge_module else Inr demo_module
                | FileObj f \<Rightarrow> Inl TypeError),
      print_model_parameters = (\<lambda>m. None),
      cuda_available = True\<rparr>"

definition demo_server :: server where
  "demo_server = \<lparr>model_uri = ''wdnet_v0.1'', model = None\<rparr>"

definition edge_server :: server where
  "edge_server = \<lparr>model_uri = ''edge_v0.1'', model = None\<rparr>"

section \<open>Properties of kfastml/utils/api.py\<close>

subsection \<open>Hexadecimal rendering\<close>

lemma hex_digit_inj:
  assumes "0 \<le> a" "a < 16" "0 \<le> b" "b < 16" "hex_digit a = hex_digit b"
  shows "a = b"
proof -
  have "nat a = nat b"
    using assms unfolding hex_digit_def
    by (intro nth_eq_iff_index_eq [THEN iffD1, of "''0123456789abcdef''"]) simp_all
  with assms show ?thesis by simp
qed

lemma hex_digit_in: "0 \<le> d \<Longrightarrow> d < 16 \<Longrightarrow> hex_digit d \<in> set ''0123456789abcdef''"
  unfolding hex_digit_def by (rule nth_mem) simp

lemma length_hex_pad: "length (hex_pad k n) = k"
  by (induction k arbitrary: n) simp_all

lemma set_hex_pad: "set (hex_pad k n) \<subseteq> set ''0123456789abcdef''"
proof (induction k arbitrary: n)
  case 0
  show ?case by simp
next
  case (Suc k)
  have "hex_digit (n mod 16) \<in> set ''0123456789abcdef''"
    by (rule hex_digit_in) simp_all
  with Suc [of "n div 16"] show ?case by simp
qed

lemma hex_pad_inj: "hex_pad k n = hex_pad k m \<Longrightarrow> n mod 16 ^ k = m mod 16 ^ k"
proof (induction k arbitrary: n m)
  case 0
  show ?case by simp
next
  case (Suc k)
  from Suc.prems have hi: "hex_pad k (n div 16) = hex_pad k (m div 16)"
    and lo: "hex_digit (n mod 16) = hex_digit (m mod 16)"
    by simp_all
  from lo have lo': "n mod 16 = m mod 16"
    by (rule hex_digit_inj [rotated 4]) simp_all
  from Suc.IH [OF hi] have hi': "n div 16 mod 16 ^ k = m div 16 mod 16 ^ k" .
  have "n mod 16 ^ Suc k = 16 * (n div 16 mod 16 ^ k) + n mod 16"
    by (simp add: zmod_zmult2_eq)
  moreover have "m mod 16 ^ Suc k = 16 * (m div 16 mod 16 ^ k) + m mod 16"
    by (simp add: zmod_zmult2_eq)
  ultimately show ?case using lo' hi' by simp
qed

lemma uuid_hex_inj: "uuid_hex u = uuid_hex v \<Longrightarrow> u = v"
proof -
  assume "uuid_hex u = uuid_hex v"
  then have "uint u mod 16 ^ 32 = uint v mod 16 ^ 32"
    unfolding uuid_hex_def by (rule hex_pad_inj)
  moreover have "uint u < 16 ^ 32" "uint v < 16 ^ 32"
    using uint_lt2p [of u] uint_lt2p [of v] by simp_all
  ultimately have "uint u = uint v" by simp
  then show "u = v" by (rule word_uint_eqI)
qed

lemma gen_request_id_eq_iff:
  "gen_request_id a r1 = gen_request_id b r2 \<longleftrightarrow> a = b \<and> uuid4 r1 = uuid4 r2"
proof -
  have len: "length (''_'' @ uuid_hex (uuid4 r1)) = length (''_'' @ uuid_hex (uuid4 r2))"
    by (simp add: uuid_hex_def length_hex_pad)
  show ?thesis
    unfolding gen_request_id_def
    using append_eq_append_conv [OF disjI2 [OF len], of a b] uuid_hex_inj [of "uuid4 r1" "uuid4 r2"]
    by auto
qed

subsection \<open>Request ids\<close>

text \<open>
  C8, as amended. The id is the api name, an underscore and the 32 lower-case
  hexadecimal digits of the uuid4 value. Two calls with the same name return different
  ids exactly when their uuid4 values differ, so any number of calls whose uuid4 values
  are pairwise distinct returns pairwise distinct ids. The function itself does not
  make the values distinct: that rests on the random source.
\<close>

theorem gen_request_id_form_and_distinctness:
  "(\<exists>tok. gen_request_id api_name rnd = api_name @ ''_'' @ tok \<and> length tok = 32
      \<and> set tok \<subseteq> set ''0123456789abcdef'')
   \<and> (gen_request_id api_name r1 = gen_request_id api_name r2 \<longleftrightarrow> uuid4 r1 = uuid4 r2)
   \<and> (distinct (map uuid4 rs) \<longrightarrow> distinct (map (gen_request_id api_name) rs))"
proof (intro conjI impI)
  show "\<exists>tok. gen_request_id api_name rnd = api_name @ ''_'' @ tok \<and> length tok = 32
      \<and> set tok \<subseteq> set ''0123456789abcdef''"
    unfolding gen_request_id_def uuid_hex_def
    using length_hex_pad set_hex_pad by blast
  show "gen_request_id api_name r1 = gen_request_id api_name r2 \<longleftrightarrow> uuid4 r1 = uuid4 r2"
    by (simp add: gen_request_id_eq_iff)
  assume d: "distinct (map uuid4 rs)"
  have "inj (\<lambda>u. api_name @ ''_'' @ uuid_hex u)"
    by (rule injI) (simp add: uuid_hex_inj)
  then have "inj_on (\<lambda>u. api_name @ ''_'' @ uuid_hex u) (set (map uuid4 rs))"
    by (rule inj_on_subset) simp
  with d have "distinct (map (\<lambda>u. api_name @ ''_'' @ uuid_hex u) (map uuid4 rs))"
    by (simp only: distinct_map)
  moreover have "gen_request_id api_name = (\<lambda>r. api_name @ ''_'' @ uuid_hex (uuid4 r))"
    by (rule ext) (simp add: gen_request_id_def)
  ultimately show "distinct (map (gen_request_id api_name) rs)"
    by (simp add: comp_def)
qed

text \<open>Three calls whose random integers are 0, 1 and 2.\<close>

theorem gen_request_id_witness:
  "distinct (map uuid4 [0, 1, 2]) \<and> distinct (map (gen_request_id ''image_to_image'') [0, 1, 2])
   \<and> gen_request_id ''image_to_image'' 1 = ''image_to_image_00000000000040008000000000000001''"
proof -
  have d: "distinct (map uuid4 [0, 1, 2])" by code_simp
  have e: "gen_request_id ''image_to_image'' 1 = ''image_to_image_00000000000040008000000000000001''"
    by code_simp
  from d e gen_request_id_form_and_distinctness [of "''image_to_image''" 1 0 1 "[0, 1, 2]"]
  show ?thesis by blast
qed

text \<open>
  C8 as stated fails: two calls whose random integers differ only in a bit that uuid4
  overwrites (bit 76, of the version field) return the same id.
\<close>

theorem gen_request_id_collision:
  "(0 :: 128 word) \<noteq> push_bit 76 1
   \<and> \<not> distinct (map (gen_request_id ''image_to_image'') [0, push_bit 76 1])"
  by code_simp

subsection \<open>The response envelope\<close>



















section \<open>Properties of model\_server.py\<close>

subsection \<open>Storage helpers\<close>


lemma upload_to_s3_eq:
  "upload_to_s3 c d b p =
     (Inr (case put_outcome c (put_requests c) (d, b, p) of
             None \<Rightarrow> Some (''s3://'' @ b @ ''/'' @ p)
           | Some e \<Rightarrow> None),
      c\<lparr>put_requests := put_requests c @ [(d, b, p)]\<rparr>)"
  by (simp add: upload_to_s3_def put_object_def Let_def split: option.splits)


text \<open>
  C5. Neither helper lets an exception out. \<open>download_from_s3\<close> returns the downloaded
  bytes when \<open>download_fileobj\<close> returns and \<open>None\<close> when it raises;
  \<open>upload_to_s3\<close> returns the locator \<open>s3://{bucket}/{object_path}\<close> when
  \<open>put_object\<close> returns and \<open>None\<close> when it raises.
\<close>

theorem s3_helpers_never_raise:
  "download_from_s3 client bucket object_path =
      Inr (case download_outcome client bucket object_path of
             Inr file_data \<Rightarrow> Some file_data
           | Inl e \<Rightarrow> None)
   \<and> fst (upload_to_s3 client data_bytes bucket object_path) =
      Inr (case put_outcome client (put_requests client) (data_bytes, bucket, object_path) of
             None \<Rightarrow> Some (''s3://'' @ bucket @ ''/'' @ object_path)
           | Some e \<Rightarrow> None)"
  by (simp add: download_from_s3_def download_fileobj_def upload_to_s3_eq split: sum.splits)

subsection \<open>image\_to\_tensor\<close>

lemma torch_view_Inl: "torch_view t new_shape = Inl e \<Longrightarrow> e = RuntimeError"
  by (simp add: torch_view_def split: if_splits)

lemma torch_permute_201_Inl: "torch_permute t [2, 0, Suc 0] = Inl e \<Longrightarrow> e = RuntimeError"
  by (auto simp: torch_permute_def split: if_splits)

lemma image_to_tensor_raises:
  "image_to_tensor im = Inl TypeError \<or> image_to_tensor im = Inl RuntimeError"
  unfolding image_to_tensor_def Let_def
  by (auto simp: torch_unsqueeze_def split: sum.splits dest: torch_view_Inl torch_permute_201_Inl)

lemma image_to_tensor_one_band:
  assumes "wf_image im" "length (getbands (im_mode im)) = 1"
  shows "image_to_tensor im = Inl RuntimeError"
  using assms
  by (simp add: image_to_tensor_def Let_def wf_image_def np_array_def torch_view_def
      torch_permute_def)

lemma image_to_tensor_many_bands:
  assumes "wf_image im" "length (getbands (im_mode im)) \<noteq> 1"
  shows "image_to_tensor im = Inl TypeError"
proof -
  have "length (getbands (im_mode im)) \<le> 4" by (cases "im_mode im") simp_all
  with assms show ?thesis
    by (simp add: image_to_tensor_def Let_def wf_image_def np_array_def torch_view_def
      torch_permute_def torch_unsqueeze_def)
qed

lemma image_to_tensor_not_Inr: "image_to_tensor im \<noteq> Inr t"
  using image_to_tensor_raises [of im] by auto

lemma infer_item_raises: "\<exists>e. infer_item env kwargs payload = Inl e"
  by (auto simp: infer_item_def image_to_tensor_not_Inr split: sum.splits)


text \<open>
  C4 fails on the code. For a well-formed image of any size the function raises: with
  three bands (a red pixel) the final \<open>unsqueeze()\<close> has no \<open>dim\<close>; with one band
  (a grey pixel) \<open>permute(2, 0, 1)\<close> is already refused, since the tensor that \<open>view\<close>
  returned was dropped and \<open>image_tensor\<close> still has two dimensions.
\<close>

theorem image_to_tensor_raises_on_pixels:
  "wf_image red_pixel \<and> image_to_tensor red_pixel = Inl TypeError
   \<and> wf_image grey_pixel \<and> image_to_tensor grey_pixel = Inl RuntimeError"
  by (simp add: image_to_tensor_one_band image_to_tensor_many_bands wf_image_def
      red_pixel_def grey_pixel_def)


subsection \<open>The per-job loop\<close>

text \<open>
  Since \<open>image_to_tensor\<close> returns for no image, the loop raises at the first fetched
  payload, whatever the collaborators do, and the call returns only for a job none of
  whose payloads was fetched.
\<close>

lemma process_fetched_all_absent:
  "\<forall>r \<in> set fetched. snd r = None \<Longrightarrow> process_fetched env kwargs fetched st = (Inr (), st)"
proof (induction fetched)
  case Nil
  show ?case by simp
next
  case (Cons r rest)
  obtain image_uri image_data where r: "r = (image_uri, image_data)" by (cases r)
  with Cons show ?case by simp
qed

lemma process_fetched_raises_on_fetched:
  "\<exists>r \<in> set fetched. snd r \<noteq> None \<Longrightarrow>
     \<exists>e. process_fetched env kwargs fetched st = (Inl e, st)"
proof (induction fetched)
  case Nil
  then show ?case by simp
next
  case (Cons r rest)
  obtain image_uri image_data where r: "r = (image_uri, image_data)" by (cases r)
  show ?case
  proof (cases image_data)
    case None
    with r Cons.prems have "\<exists>r \<in> set rest. snd r \<noteq> None" by simp
    from Cons.IH [OF this] r None show ?thesis by simp
  next
    case (Some payload)
    from infer_item_raises [of env kwargs payload]
    obtain e where "infer_item env kwargs payload = Inl e" ..
    with r Some show ?thesis by simp
  qed
qed

lemma image_to_image_returns_iff:
  "(\<exists>out client'. image_to_image env client request_id fetched kwargs = (Inr out, client'))
     \<longleftrightarrow> (\<forall>r \<in> set fetched. snd r = None)"
proof
  assume "\<forall>r \<in> set fetched. snd r = None"
  then show "\<exists>out client'. image_to_image env client request_id fetched kwargs = (Inr out, client')"
    by (simp add: image_to_image_def process_fetched_all_absent)
next
  assume ret: "\<exists>out client'. image_to_image env client request_id fetched kwargs = (Inr out, client')"
  show "\<forall>r \<in> set fetched. snd r = None"
  proof (rule ccontr)
    assume "\<not> (\<forall>r \<in> set fetched. snd r = None)"
    then have "\<exists>r \<in> set fetched. snd r \<noteq> None" by simp
    from process_fetched_raises_on_fetched [OF this, of env kwargs
        "\<lparr>s3 = client, src_images_uri = [], result_images_uri = []\<rparr>"]
    obtain e where
      "process_fetched env kwargs fetched
         \<lparr>s3 = client, src_images_uri = [], result_images_uri = []\<rparr>
       = (Inl e, \<lparr>s3 = client, src_images_uri = [], result_images_uri = []\<rparr>)" ..
    with ret show False by (simp add: image_to_image_def)
  qed
qed

lemma demo_infer_red_pixel:
  "infer_item demo_collaborators () red_pixel_png = Inl TypeError"
  by (simp add: infer_item_def demo_collaborators_def image_to_tensor_many_bands wf_image_def
      red_pixel_def)


text \<open>
  C1 fails on the code. A job of three references, the first not fetched and the other
  two fetched as the PNG file of a red pixel: the call does not return two lists of
  length two, it raises the TypeError of \<open>image_to_tensor\<close>.
\<close>

theorem image_to_image_raises_after_failed_fetch:
  "image_to_image demo_collaborators accepting_client ''req''
     [(''a.png'', None), (''b.png'', Some red_pixel_png), (''c.png'', Some red_pixel_png)] ()
   = (Inl TypeError, accepting_client)"
  by (simp add: image_to_image_def demo_infer_red_pixel)


text \<open>
  C9 fails on the code. A job of one reference, fetched as the PNG file of a red pixel:
  the call raises before lines 99 and 100, and the storage client has received no
  request.
\<close>

theorem fetched_image_not_uploaded:
  "fst (image_to_image demo_collaborators accepting_client ''req''
          [(''b.png'', Some red_pixel_png)] ()) = Inl TypeError
   \<and> put_requests (snd (image_to_image demo_collaborators accepting_client ''req''
          [(''b.png'', Some red_pixel_png)] ())) = []"
  by (simp add: image_to_image_def demo_infer_red_pixel accepting_client_def)


text \<open>
  C10 fails on the code. The same job with a storage client that refuses every upload:
  no upload is attempted and no list with a \<open>None\<close> entry is returned; the call raises
  the TypeError of \<open>image_to_tensor\<close>.
\<close>

theorem refused_upload_not_reached:
  "image_to_image demo_collaborators refusing_client ''req''
     [(''b.png'', Some red_pixel_png)] ()
   = (Inl TypeError, refusing_client)
   \<and> put_requests refusing_client = []"
  by (simp add: image_to_image_def demo_infer_red_pixel refusing_client_def)


subsection \<open>resize\_image\<close>

lemma new_size_raises:
  "0 < h \<Longrightarrow> 0 < w \<Longrightarrow> new_size h w min_dimension max_dimension = Inl TypeError"
  by (simp add: new_size_def torch_where_scalar_def)

lemma resize_image_raises:
  assumes "shape image_tensor = [c, h, w]" "0 < h" "0 < w"
  shows "resize_image resample image_tensor min_dimension max_dimension = Inl TypeError"
  using assms by (simp add: resize_image_def new_size_raises)

lemma shape_image_800_900: "shape image_800_900 = [3, 800, 900]"
  by (simp only: image_800_900_def tensor.simps)


text \<open>
  C2 fails on the code. A tensor of three channels, 800 high and 900 wide, lies within
  the bounds 768 and 1024; \<open>resize_image\<close> does not return it, it raises the TypeError
  of \<open>torch.where\<close>, as it does for every tensor of positive height and width.
\<close>

theorem resize_image_raises_in_bounds:
  "shape image_800_900 = [3, 800, 900]
   \<and> resize_image resample image_800_900 768 1024 = Inl TypeError"
  using resize_image_raises [OF shape_image_800_900, of resample 768 1024] shape_image_800_900
  by simp

subsection \<open>\_load\_model\<close>

lemma eps_as_values:
  "eps_as Float32 = 10995116 / 2 ^ 40 \<and> eps_as Float32 < 1 / 100000
   \<and> \<bar>eps_as Float32 - 1 / 100000\<bar> \<le> 1 / 2 ^ 41
   \<and> 1 / 100000 < eps_as Float64 \<and> 1 / 100000 < eps_as Float16"
  by (simp add: eps_as_def)

lemma to_half_zero: "to_half (Finite 0) = Finite 0"
  by (simp add: to_half_def torch_round_def)

lemma load_model_returns:
  assumes "load_model env client self = (Inr (), self')"
  shows "\<exists>loaded. deserialize env client (model_uri self) = Inr loaded
           \<and> print_model_parameters env loaded = None
           \<and> cuda_available env
           \<and> self' = self\<lparr>model := Some (module_eval
                 ((module_half (denormal_cleanup loaded))\<lparr>device := ''cuda:0''\<rparr>))\<rparr>"
  using assms
  by (auto simp: load_model_def Let_def module_to_cuda_def
      split: sum.splits option.splits if_splits)

lemma cleanup_zeroes:
  assumes "i < length (parameters m)" "j < length (parameters m ! i)"
    "parameters m ! i ! j = Finite x" "\<bar>x\<bar> < eps_as (param_dtype m)"
  shows "parameters (denormal_cleanup m) ! i ! j = Finite 0"
  using assms by (simp add: denormal_cleanup_def abs_lt_eps_def)

lemma cleanup_keeps:
  assumes "i < length (parameters m)" "j < length (parameters m ! i)"
    "parameters m ! i ! j = Finite x" "eps_as (param_dtype m) \<le> \<bar>x\<bar>"
  shows "parameters (denormal_cleanup m) ! i ! j = Finite x"
  using assms by (simp add: denormal_cleanup_def abs_lt_eps_def)

lemma half_after_cleanup:
  assumes "i < length (parameters m)" "j < length (parameters m ! i)"
  shows "parameters (module_eval ((module_half (denormal_cleanup m))\<lparr>device := d\<rparr>)) ! i ! j
           = to_half (parameters (denormal_cleanup m) ! i ! j)"
  using assms by (simp add: module_eval_def module_half_def denormal_cleanup_def)


text \<open>
  C3, as amended. When the load completes, the module bound to the server is the
  deserialized one after the cleanup, then the conversion to half precision and to the
  device, then the switch to inference mode, in this order. The cleanup compares with
  \<open>eps\<close> converted to the element type of the parameters: a value whose magnitude is
  below that threshold is zero after the cleanup and zero after the load, and every
  other finite value is kept by the cleanup and then rounded to half precision. For
  float32 parameters the threshold is \<open>10995116 / 2 ^ 40\<close>, which is below \<open>1e-5\<close>; for
  float64 and float16 parameters it is above \<open>1e-5\<close>.
\<close>

theorem load_model_cleanup_then_half:
  assumes ret: "load_model env client self = (Inr (), self')"
  shows "\<exists>loaded final.
           deserialize env client (model_uri self) = Inr loaded
           \<and> model self' = Some final
           \<and> final = module_eval ((module_half (denormal_cleanup loaded))\<lparr>device := ''cuda:0''\<rparr>)
           \<and> param_dtype final = Float16 \<and> device final = ''cuda:0'' \<and> \<not> training final
           \<and> (\<forall>i < length (parameters loaded). \<forall>j < length (parameters loaded ! i). \<forall>x.
                 parameters loaded ! i ! j = Finite x \<longrightarrow>
                   (\<bar>x\<bar> < eps_as (param_dtype loaded) \<longrightarrow>
                      parameters (denormal_cleanup loaded) ! i ! j = Finite 0
                      \<and> parameters final ! i ! j = Finite 0)
                   \<and> (eps_as (param_dtype loaded) \<le> \<bar>x\<bar> \<longrightarrow>
                      parameters (denormal_cleanup loaded) ! i ! j = Finite x
                      \<and> parameters final ! i ! j = to_half (Finite x)))
           \<and> eps_as Float32 = 10995116 / 2 ^ 40 \<and> eps_as Float32 < 1 / 100000
           \<and> 1 / 100000 < eps_as Float64 \<and> 1 / 100000 < eps_as Float16"
proof -
  from load_model_returns [OF ret] obtain loaded where
    des: "deserialize env client (model_uri self) = Inr loaded"
    and self': "self' = self\<lparr>model := Some (module_eval
                 ((module_half (denormal_cleanup loaded))\<lparr>device := ''cuda:0''\<rparr>))\<rparr>"
    by blast
  let ?final = "module_eval ((module_half (denormal_cleanup loaded))\<lparr>device := ''cuda:0''\<rparr>)"
  have small: "parameters (denormal_cleanup loaded) ! i ! j = Finite 0
                \<and> parameters ?final ! i ! j = Finite 0"
    if "i < length (parameters loaded)" "j < length (parameters loaded ! i)"
      "parameters loaded ! i ! j = Finite x" "\<bar>x\<bar> < eps_as (param_dtype loaded)" for i j x
    using cleanup_zeroes [OF that] half_after_cleanup [OF that(1,2), where d = "''cuda:0''"]
      to_half_zero
    by simp
  have large: "parameters (denormal_cleanup loaded) ! i ! j = Finite x
                \<and> parameters ?final ! i ! j = to_half (Finite x)"
    if "i < length (parameters loaded)" "j < length (parameters loaded ! i)"
      "parameters loaded ! i ! j = Finite x" "eps_as (param_dtype loaded) \<le> \<bar>x\<bar>" for i j x
    using cleanup_keeps [OF that] half_after_cleanup [OF that(1,2), where d = "''cuda:0''"]
    by simp
  have flags: "param_dtype ?final = Float16 \<and> device ?final = ''cuda:0'' \<and> \<not> training ?final"
    by (simp add: module_eval_def module_half_def)
  from des self' small large flags eps_as_values show ?thesis by auto
qed

lemma demo_load:
  "load_model demo_loader accepting_client demo_server
     = (Inr (), demo_server\<lparr>model := Some
          \<lparr>parameters = [[Finite (1 / 2), Finite 0, Finite 0], [Finite 0, Finite (1 / 2 ^ 16)]],
           param_dtype = Float16, device = ''cuda:0'', training = False\<rparr>\<rparr>)"
  by code_simp


text \<open>
  A float32 module of two parameter tensors, loaded from a local name. The values
  \<open>2 ^ - 19\<close> and \<open>- 2 ^ - 18\<close> are zeroed by the cleanup; half precision alone would
  have kept them.
\<close>

theorem load_model_cleanup_then_half_witness:
  "load_model demo_loader accepting_client demo_server
     = (Inr (), demo_server\<lparr>model := Some
          \<lparr>parameters = [[Finite (1 / 2), Finite 0, Finite 0], [Finite 0, Finite (1 / 2 ^ 16)]],
           param_dtype = Float16, device = ''cuda:0'', training = False\<rparr>\<rparr>)
   \<and> parameters demo_module ! 0 ! 1 = Finite (1 / 2 ^ 19)
   \<and> \<bar>1 / 2 ^ 19\<bar> < eps_as (param_dtype demo_module)
   \<and> to_half (Finite (1 / 2 ^ 19)) = Finite (1 / 2 ^ 19)
   \<and> (\<exists>final. model (snd (load_model demo_loader accepting_client demo_server)) = Some final
        \<and> parameters final ! 0 ! 1 = Finite 0)"
proof -
  have des: "deserialize demo_loader accepting_client (model_uri demo_server) = Inr demo_module"
    by (simp add: deserialize_def demo_loader_def demo_server_def)
  have val: "parameters demo_module ! 0 ! 1 = Finite (1 / 2 ^ 19)"
    by (simp add: demo_module_def)
  have small: "\<bar>1 / 2 ^ 19\<bar> < eps_as (param_dtype demo_module)"
    by (simp add: demo_module_def eps_as_def)
  have kept: "to_half (Finite (1 / 2 ^ 19)) = Finite (1 / 2 ^ 19)"
    by code_simp
  have idx: "0 < length (parameters demo_module)" "1 < length (parameters demo_module ! 0)"
    by (simp_all add: demo_module_def)
  from load_model_cleanup_then_half [OF demo_load] obtain loaded final where
    d: "deserialize demo_loader accepting_client (model_uri demo_server) = Inr loaded"
    and m: "model (demo_server\<lparr>model := Some
          \<lparr>parameters = [[Finite (1 / 2), Finite 0, Finite 0], [Finite 0, Finite (1 / 2 ^ 16)]],
           param_dtype = Float16, device = ''cuda:0'', training = False\<rparr>\<rparr>) = Some final"
    and z: "\<forall>i < length (parameters loaded). \<forall>j < length (parameters loaded ! i). \<forall>x.
                 parameters loaded ! i ! j = Finite x \<longrightarrow>
                   (\<bar>x\<bar> < eps_as (param_dtype loaded) \<longrightarrow>
                      parameters (denormal_cleanup loaded) ! i ! j = Finite 0
                      \<and> parameters final ! i ! j = Finite 0)
                   \<and> (eps_as (param_dtype loaded) \<le> \<bar>x\<bar> \<longrightarrow>
                      parameters (denormal_cleanup loaded) ! i ! j = Finite x
                      \<and> parameters final ! i ! j = to_half (Finite x))"
    by blast
  from d des have "loaded = demo_module" by simp
  with z val small idx have "parameters final ! 0 ! 1 = Finite 0" by blast
  with m demo_load val small kept show ?thesis by simp
qed


text \<open>
  C3 as stated fails. A float32 parameter equal to the float32 value nearest to
  \<open>1e-5\<close> has a magnitude below \<open>1e-5\<close>; the cleanup keeps it, and after the load it
  is \<open>168 / 2 ^ 24\<close>, not zero.
\<close>

theorem load_model_keeps_float32_eps:
  "parameters edge_module = [[Finite (10995116 / 2 ^ 40)]]
   \<and> param_dtype edge_module = Float32
   \<and> \<bar>10995116 / 2 ^ 40\<bar> < (1 / 100000 :: rat)
   \<and> parameters (denormal_cleanup edge_module) = [[Finite (10995116 / 2 ^ 40)]]
   \<and> load_model demo_loader accepting_client edge_server
       = (Inr (), edge_server\<lparr>model := Some
            \<lparr>parameters = [[Finite (168 / 2 ^ 24)]],
             param_dtype = Float16, device = ''cuda:0'', training = False\<rparr>\<rparr>)
   \<and> Finite (168 / 2 ^ 24) \<noteq> Finite 0"
proof -
  have "load_model demo_loader accepting_client edge_server
       = (Inr (), edge_server\<lparr>model := Some
            \<lparr>parameters = [[Finite (168 / 2 ^ 24)]],
             param_dtype = Float16, device = ''cuda:0'', training = False\<rparr>\<rparr>)"
    by code_simp
  moreover have "parameters (denormal_cleanup edge_module) = [[Finite (10995116 / 2 ^ 40)]]"
    by (simp add: denormal_cleanup_def edge_module_def abs_lt_eps_def eps_as_def)
  ultimately show ?thesis by (simp add: edge_module_def)
qed

end
